theory Spec2Isabelle
  imports Main "HOL-Library.Word"
begin

section \<open>The description-enhancement subsystem of the products service\<close>

text \<open>
  A shallow embedding of \<^verbatim>\<open>cmd/products/ai\<close> (generator, two-tier cache, metrics) and of
  \<^verbatim>\<open>enhanceDescription\<close> in the products routes. Go strings are byte sequences, so a
  \<^typ>\<open>string\<close> (a list of 8-bit characters) is a Go string and \<^const>\<open>length\<close> is Go's
  \<^verbatim>\<open>len\<close>. A Go result pair \<^verbatim>\<open>(string, error)\<close> is a pair whose second component is
  \<^typ>\<open>'a option\<close>, with \<^const>\<open>None\<close> for \<^verbatim>\<open>nil\<close>. The code is modelled sequentially: the
  reader/writer lock around the in-process map has no counterpart here.
\<close>

subsection \<open>Time, contexts, errors\<close>

text \<open>
  Instants and durations are counted in nanoseconds, as \<^verbatim>\<open>time.Duration\<close> does. They are
  unbounded integers: the constants of this code are far from the 64-bit range.
\<close>

type_synonym time = int
type_synonym Duration = int

definition Nanosecond :: Duration where
  "Nanosecond = 1"

definition Second :: Duration where
  "Second = 1000000000 * Nanosecond"

definition Hour :: Duration where
  "Hour = 3600 * Second"

text \<open>\<^verbatim>\<open>cacheTTL = 24 * time.Hour\<close> and \<^verbatim>\<open>generationTimeout = 5 * time.Second\<close>.\<close>

definition cacheTTL :: Duration where
  "cacheTTL = 24 * Hour"

definition generationTimeout :: Duration where
  "generationTimeout = 5 * Second"

definition stateStoreName :: string where
  "stateStoreName = ''statestore''"

text \<open>
  A context is kept as the expression that built it: the caller's context, or
  \<^verbatim>\<open>context.WithTimeout(parent, d)\<close>.
\<close>

datatype Context = Background | WithTimeout Context Duration

text \<open>
  An error is a message (\<^verbatim>\<open>fmt.Errorf("msg")\<close>, or whatever a client library reports) or
  an error wrapped behind a prefix (\<^verbatim>\<open>fmt.Errorf("prefix: %w", err)\<close>).
\<close>

datatype error = Errorf string | Wrap string error

text \<open>
  Floating-point values are kept symbolically: a \<^verbatim>\<open>float32\<close> as the decimal constant it
  was converted from (\<open>Float32 m k\<close> is \<^verbatim>\<open>float32(m / 10^k)\<close>), a \<^verbatim>\<open>float64\<close> of seconds
  as the duration \<^verbatim>\<open>Duration.Seconds\<close> was applied to.
\<close>

datatype float32 = Float32 int nat

datatype float64 = Seconds Duration

subsection \<open>Library functions the code calls\<close>

text \<open>\<^verbatim>\<open>strings.HasPrefix\<close> and \<^verbatim>\<open>strings.Contains\<close>: a scan for the first match.\<close>

fun HasPrefix :: "string \<Rightarrow> string \<Rightarrow> bool" where
  "HasPrefix s [] = True"
| "HasPrefix [] (p # ps) = False"
| "HasPrefix (c # cs) (p # ps) = (c = p \<and> HasPrefix cs ps)"

fun Contains :: "string \<Rightarrow> string \<Rightarrow> bool" where
  "Contains [] substr = (substr = [])"
| "Contains (c # cs) substr = (HasPrefix (c # cs) substr \<or> Contains cs substr)"

text \<open>\<^verbatim>\<open>fmt.Sprintf("%d", n)\<close>: the decimal digits, with a sign for a negative number.\<close>

definition digit :: "nat \<Rightarrow> char" where
  "digit n = ''0123456789'' ! n"

fun digits :: "nat \<Rightarrow> string" where
  "digits n = (if n < 10 then [digit n] else digits (n div 10) @ [digit (n mod 10)])"

definition Sprintf_d :: "int \<Rightarrow> string" where
  "Sprintf_d n = (if n < 0 then CHR ''-'' # digits (nat (- n)) else digits (nat n))"

text \<open>
  \<^verbatim>\<open>int(d.Seconds())\<close>: the whole seconds of a duration, truncated towards zero. (The
  float64 in between is exact for a whole number of seconds such as \<^const>\<open>cacheTTL\<close>.)
\<close>

definition int_Seconds :: "Duration \<Rightarrow> int" where
  "int_Seconds d = (if 0 \<le> d then d div Second else - ((- d) div Second))"

subsection \<open>The services outside the process\<close>

text \<open>
  The Dapr sidecar and the Azure OpenAI endpoint are reached through client objects. What
  they answer is not the code's to decide, so a client is a record of its methods, each a
  function of the arguments and of the state \<open>'e\<close> of everything outside the process,
  returning the answer and the next outside state. Theorems quantify over all such clients.
\<close>

record StateItem =
  Key :: string
  Value :: string

record 'e dapr_Client =
  GetState :: "Context \<Rightarrow> string \<Rightarrow> string \<Rightarrow> 'e \<Rightarrow> (error + StateItem) \<times> 'e"
  SaveState :: "Context \<Rightarrow> string \<Rightarrow> string \<Rightarrow> string \<Rightarrow> (string \<times> string) list \<Rightarrow> 'e
    \<Rightarrow> error option \<times> 'e"

datatype ChatRequestMessage = ChatRequestSystemMessage string | ChatRequestUserMessage string

record ChatCompletionsOptions =
  Messages :: "ChatRequestMessage list"
  DeploymentName :: "string option"
  MaxTokens :: "32 word option"
  Temperature :: "float32 option"

record ChatResponseMessage =
  Content :: "string option"

record ChatChoice =
  Message :: "ChatResponseMessage option"

record ChatCompletions =
  Choices :: "ChatChoice list"

record 'e azopenai_Client =
  GetChatCompletions :: "Context \<Rightarrow> ChatCompletionsOptions \<Rightarrow> 'e \<Rightarrow> (error + ChatCompletions) \<times> 'e"

subsection \<open>Metrics (metrics.go)\<close>

text \<open>
  The four package-level collectors: two counter vectors indexed by a label value, one
  plain counter and one histogram, kept as the list of the samples it observed.
\<close>

record metrics =
  aiRequestsTotal :: "string \<Rightarrow> nat"
  aiCacheHitsTotal :: nat
  aiLatencySeconds :: "float64 list"
  aiErrorsTotal :: "string \<Rightarrow> nat"

text \<open>The calls made to the outside, in order; they change nothing, they are observed.\<close>

datatype dapr_call =
  GetStateCall Context string string
| SaveStateCall Context string string string "(string \<times> string) list"

text \<open>
  The state a call runs in: the wall clock as the sequence of readings \<^verbatim>\<open>time.Now()\<close>
  will return and the number of readings taken, the outside state, the collectors, and
  the observed calls (state-store calls, chat-completion calls, and the contexts whose
  cancel function has been called).
\<close>

record 'e world =
  clock :: "nat \<Rightarrow> time"
  ticks :: nat
  ext :: 'e
  ai_metrics :: metrics
  dapr_calls :: "dapr_call list"
  openai_calls :: "(Context \<times> ChatCompletionsOptions) list"
  cancelled :: "Context list"

definition time_Now :: "'e world \<Rightarrow> time \<times> 'e world" where
  "time_Now w = (clock w (ticks w), w\<lparr>ticks := Suc (ticks w)\<rparr>)"

text \<open>\<^verbatim>\<open>time.Since(start)\<close> is \<^verbatim>\<open>time.Now().Sub(start)\<close>.\<close>

definition time_Since :: "time \<Rightarrow> 'e world \<Rightarrow> Duration \<times> 'e world" where
  "time_Since start w = (case time_Now w of (now, w') \<Rightarrow> (now - start, w'))"

definition RecordRequest :: "string \<Rightarrow> 'e world \<Rightarrow> 'e world" where
  "RecordRequest status w =
     w\<lparr>ai_metrics := (ai_metrics w)\<lparr>aiRequestsTotal :=
       (aiRequestsTotal (ai_metrics w))(status := aiRequestsTotal (ai_metrics w) status + 1)\<rparr>\<rparr>"

definition RecordCacheHit :: "'e world \<Rightarrow> 'e world" where
  "RecordCacheHit w =
     w\<lparr>ai_metrics := (ai_metrics w)\<lparr>aiCacheHitsTotal := aiCacheHitsTotal (ai_metrics w) + 1\<rparr>\<rparr>"

definition RecordLatency :: "float64 \<Rightarrow> 'e world \<Rightarrow> 'e world" where
  "RecordLatency seconds w =
     w\<lparr>ai_metrics := (ai_metrics w)\<lparr>aiLatencySeconds :=
       aiLatencySeconds (ai_metrics w) @ [seconds]\<rparr>\<rparr>"

definition RecordError :: "string \<Rightarrow> 'e world \<Rightarrow> 'e world" where
  "RecordError errorType w =
     w\<lparr>ai_metrics := (ai_metrics w)\<lparr>aiErrorsTotal :=
       (aiErrorsTotal (ai_metrics w))(errorType := aiErrorsTotal (ai_metrics w) errorType + 1)\<rparr>\<rparr>"

subsection \<open>The generation client (client.go, generator.go)\<close>

record 'e Client =
  openai :: "'e azopenai_Client"
  deployment :: string

definition isPlaceholder :: "string \<Rightarrow> bool" where
  "isPlaceholder desc =
     (if length desc < 20 then True
      else if Contains desc ''...'' then True
      else False)"

text \<open>
  The deferred \<^verbatim>\<open>cancel()\<close> runs on every return after \<^verbatim>\<open>context.WithTimeout\<close>, so it is
  recorded once, after the call to the service and before the result is inspected.
\<close>

definition GenerateDescription ::
  "'e Client \<Rightarrow> Context \<Rightarrow> string \<Rightarrow> string \<Rightarrow> 'e world \<Rightarrow> (string \<times> error option) \<times> 'e world" where
  "GenerateDescription c ctx productName currentDesc w =
     (if \<not> isPlaceholder currentDesc then ((currentDesc, None), w)
      else
        let ctx' = WithTimeout ctx generationTimeout;
            prompt = ''Write a compelling 2-3 sentence product description for: '' @ productName;
            systemMsg = ''You are a creative product description writer. Write engaging, concise descriptions.'';
            messages = [ChatRequestSystemMessage systemMsg, ChatRequestUserMessage prompt];
            opts = \<lparr>Messages = messages, DeploymentName = Some (deployment c),
                    MaxTokens = Some 200, Temperature = Some (Float32 7 1)\<rparr>;
            (resp, e') = GetChatCompletions (openai c) ctx' opts (ext w);
            w' = w\<lparr>ext := e', openai_calls := openai_calls w @ [(ctx', opts)],
                   cancelled := cancelled w @ [ctx']\<rparr>
        in case resp of
             Inl err \<Rightarrow> (('''', Some (Wrap ''failed to generate description'' err)), w')
           | Inr r \<Rightarrow>
               (case Choices r of
                  [] \<Rightarrow> (('''', Some (Errorf ''no description generated'')), w')
                | ch # _ \<Rightarrow>
                    (case Message ch of
                       None \<Rightarrow> (('''', Some (Errorf ''no description generated'')), w')
                     | Some m \<Rightarrow>
                         (case Content m of
                            None \<Rightarrow> (('''', Some (Errorf ''no description generated'')), w')
                          | Some s \<Rightarrow> ((s, None), w')))))"

subsection \<open>The two-tier cache (Cache.Get, Cache.Set)\<close>

record cacheEntry =
  entry_value :: string
  expiresAt :: time

text \<open>\<open>daprClient\<close> is \<^const>\<open>None\<close> for the cache made by \<^verbatim>\<open>NewMemoryCache\<close>.\<close>

record 'e Cache =
  daprClient :: "'e dapr_Client option"
  memCache :: "string \<rightharpoonup> cacheEntry"

definition NewCache :: "'e dapr_Client \<Rightarrow> 'e Cache" where
  "NewCache d = \<lparr>daprClient = Some d, memCache = Map.empty\<rparr>"

definition NewMemoryCache :: "'e Cache" where
  "NewMemoryCache = \<lparr>daprClient = None, memCache = Map.empty\<rparr>"

definition cache_key :: "string \<Rightarrow> string" where
  "cache_key productID = ''ai-desc-'' @ productID"

text \<open>
  A method with a pointer receiver returns the receiver as the call left it.
  \<^verbatim>\<open>time.Now()\<close> is read only when the key is in the map. \<open>hit\<close> is the value
  of the early return from the in-process tier, if it is taken.
\<close>

definition Cache_Get ::
  "'e Cache \<Rightarrow> Context \<Rightarrow> string \<Rightarrow> 'e world \<Rightarrow> (string \<times> error option) \<times> 'e Cache \<times> 'e world" where
  "Cache_Get c ctx productID w =
     (let key = cache_key productID;
          (hit, w1) =
            (case memCache c key of
               Some entry \<Rightarrow>
                 (let (now, w') = time_Now w
                  in (if now < expiresAt entry then Some (entry_value entry) else None, w'))
             | None \<Rightarrow> (None, w))
      in case hit of
           Some v \<Rightarrow> ((v, None), c, w1)
         | None \<Rightarrow>
             (case daprClient c of
                Some d \<Rightarrow>
                  (let (item, e') = GetState d ctx stateStoreName key (ext w1);
                       w2 = w1\<lparr>ext := e', dapr_calls := dapr_calls w1 @
                              [GetStateCall ctx stateStoreName key]\<rparr>
                   in case item of
                        Inl err \<Rightarrow> (('''', Some err), c, w2)
                      | Inr it \<Rightarrow>
                          if length (Value it) = 0 then (('''', None), c, w2)
                          else ((Value it, None), c, w2))
              | None \<Rightarrow> (('''', None), c, w1)))"

definition Cache_Set ::
  "'e Cache \<Rightarrow> Context \<Rightarrow> string \<Rightarrow> string \<Rightarrow> 'e world \<Rightarrow> error option \<times> 'e Cache \<times> 'e world" where
  "Cache_Set c ctx productID description w =
     (let key = cache_key productID;
          (now, w') = time_Now w;
          c' = c\<lparr>memCache := (memCache c)(key \<mapsto>
                 \<lparr>entry_value = description, expiresAt = now + cacheTTL\<rparr>)\<rparr>
      in case daprClient c' of
           Some d \<Rightarrow>
             (let metadata = [(''ttlInSeconds'', Sprintf_d (int_Seconds cacheTTL))];
                  (err, e') = SaveState d ctx stateStoreName key description metadata (ext w')
              in (err, c', w'\<lparr>ext := e', dapr_calls := dapr_calls w' @
                     [SaveStateCall ctx stateStoreName key description metadata]\<rparr>))
         | None \<Rightarrow> (None, c', w'))"

subsection \<open>The orchestrator (enhanceDescription)\<close>

text \<open>
  \<^verbatim>\<open>getProduct\<close> and \<^verbatim>\<open>getCatalog\<close> call \<^verbatim>\<open>enhanceDescription\<close> only when
  \<^verbatim>\<open>api.aiClient\<close> and \<^verbatim>\<open>api.aiCache\<close> are both non-nil, so both are present here. The
  result is the string the Go function returns, with the cache behind \<^verbatim>\<open>api.aiCache\<close> and
  the state as the call left them. The function has no error result.
\<close>

record 'e API =
  aiClient :: "'e Client"
  aiCache :: "'e Cache"

definition enhanceDescription ::
  "'e API \<Rightarrow> Context \<Rightarrow> string \<Rightarrow> string \<Rightarrow> string \<Rightarrow> 'e world \<Rightarrow> string \<times> 'e Cache \<times> 'e world" where
  "enhanceDescription api ctx productID productName currentDesc w =
     (let (start, w0) = time_Now w;
          ((cached, err), c1, w1) = Cache_Get (aiCache api) ctx productID w0
      in if err = None \<and> cached \<noteq> '''' then (cached, c1, RecordCacheHit w1)
         else
           let ((description, gerr), w2) = GenerateDescription (aiClient api) ctx productName currentDesc w1
           in if gerr \<noteq> None then
                (currentDesc, c1, RecordRequest ''error'' (RecordError ''generation_failed'' w2))
              else
                let (serr, c3, w3) = Cache_Set c1 ctx productID description w2;
                    w4 = (if serr \<noteq> None then RecordError ''cache_failed'' w3 else w3);
                    w5 = RecordRequest ''success'' w4;
                    (elapsed, w6) = time_Since start w5
                in (description, c3, RecordLatency (Seconds elapsed) w6))"

subsection \<open>Test doubles\<close>

text \<open>
  Clients that give the same answer to every call, and a state with nothing recorded, no
  outside state and a clock that advances one second per reading.
\<close>

definition stub_openai :: "error + ChatCompletions \<Rightarrow> unit azopenai_Client" where
  "stub_openai r = \<lparr>GetChatCompletions = (\<lambda>ctx opts e. (r, e))\<rparr>"

definition stub_client :: "error + ChatCompletions \<Rightarrow> unit Client" where
  "stub_client r = \<lparr>openai = stub_openai r, deployment = ''gpt''\<rparr>"

definition stub_dapr :: "error + StateItem \<Rightarrow> error option \<Rightarrow> unit dapr_Client" where
  "stub_dapr g s =
     \<lparr>GetState = (\<lambda>ctx store key e. (g, e)),
      SaveState = (\<lambda>ctx store key data meta e. (s, e))\<rparr>"

definition answer :: "string \<Rightarrow> error + ChatCompletions" where
  "answer s = Inr \<lparr>Choices = [\<lparr>Message = Some \<lparr>Content = Some s\<rparr>\<rparr>]\<rparr>"

definition metrics0 :: metrics where
  "metrics0 = \<lparr>aiRequestsTotal = (\<lambda>_. 0), aiCacheHitsTotal = 0,
               aiLatencySeconds = [], aiErrorsTotal = (\<lambda>_. 0)\<rparr>"

definition world0 :: "unit world" where
  "world0 = \<lparr>clock = (\<lambda>n. int n * Second), ticks = 0, ext = (), ai_metrics = metrics0,
              dapr_calls = [], openai_calls = [], cancelled = []\<rparr>"

definition widget_cache :: "unit Cache" where
  "widget_cache =
     \<lparr>daprClient = Some (stub_dapr (Inl (Errorf ''sidecar down'')) (Some (Errorf ''write refused''))),
      memCache = [cache_key ''p1'' \<mapsto> \<lparr>entry_value = ''A great widget.'', expiresAt = 5 * Second\<rparr>]\<rparr>"

definition memory_api :: "error + ChatCompletions \<Rightarrow> unit API" where
  "memory_api r = \<lparr>aiClient = stub_client r, aiCache = NewMemoryCache\<rparr>"

definition dapr_api :: "error + ChatCompletions \<Rightarrow> error + StateItem \<Rightarrow> error option \<Rightarrow> unit API" where
  "dapr_api r g s = \<lparr>aiClient = stub_client r, aiCache = NewCache (stub_dapr g s)\<rparr>"

section \<open>Properties\<close>

subsection \<open>Substring search\<close>

lemma HasPrefix_iff: "HasPrefix s p \<longleftrightarrow> (\<exists>b. s = p @ b)"
  by (induction s p rule: HasPrefix.induct) auto

lemma Contains_iff: "Contains s sub \<longleftrightarrow> (\<exists>a b. s = a @ sub @ b)"
proof (induction s)
  case Nil
  then show ?case by auto
next
  case (Cons c cs)
  show ?case
  proof
    assume "Contains (c # cs) sub"
    then consider "HasPrefix (c # cs) sub" | "Contains cs sub" by auto
    then show "\<exists>a b. c # cs = a @ sub @ b"
    proof cases
      case 1
      then obtain b where "c # cs = sub @ b" by (auto simp: HasPrefix_iff)
      then have "c # cs = [] @ sub @ b" by simp
      then show ?thesis by blast
    next
      case 2
      then obtain a b where "cs = a @ sub @ b" using Cons.IH by auto
      then have "c # cs = (c # a) @ sub @ b" by simp
      then show ?thesis by blast
    qed
  next
    assume "\<exists>a b. c # cs = a @ sub @ b"
    then obtain a b where ab: "c # cs = a @ sub @ b" by auto
    show "Contains (c # cs) sub"
    proof (cases a)
      case Nil
      then have "HasPrefix (c # cs) sub" using ab by (auto simp: HasPrefix_iff)
      then show ?thesis by simp
    next
      case (Cons x a')
      then have "cs = a' @ sub @ b" using ab by simp
      then have "Contains cs sub" using Cons.IH by blast
      then show ?thesis by simp
    qed
  qed
qed

subsection \<open>The placeholder policy\<close>

text \<open>
  C5. A description is a placeholder exactly when it is shorter than 20 bytes (Go's
  \<^verbatim>\<open>len\<close>) or contains the three bytes \<^verbatim>\<open>...\<close> somewhere; so a string of length 50
  with no ellipsis is not one. For a description that is not a placeholder,
  \<^verbatim>\<open>GenerateDescription\<close> returns it with a nil error and leaves the whole state as it
  was: no call to the service is made or observed.
\<close>

theorem isPlaceholder_policy:
  "(isPlaceholder s \<longleftrightarrow> length s < 20 \<or> (\<exists>a b. s = a @ ''...'' @ b)) \<and>
   (length s = 50 \<and> \<not> (\<exists>a b. s = a @ ''...'' @ b) \<longrightarrow> \<not> isPlaceholder s) \<and>
   (\<not> isPlaceholder d \<longrightarrow>
      GenerateDescription c ctx productName d w = ((d, None), w))"
  by (simp add: isPlaceholder_def Contains_iff GenerateDescription_def)

theorem isPlaceholder_policy_witness:
  "length ''A sturdy steel bottle that keeps drinks cold. Yes.'' = 50 \<and>
   \<not> isPlaceholder ''A sturdy steel bottle that keeps drinks cold. Yes.'' \<and>
   isPlaceholder ''Soon to be announced, watch this space...'' \<and>
   isPlaceholder ''short'' \<and>
   GenerateDescription (stub_client (answer ''unused'')) Background ''Bottle''
       ''A sturdy steel bottle that keeps drinks cold. Yes.'' world0 =
     ((''A sturdy steel bottle that keeps drinks cold. Yes.'', None), world0)"
proof -
  let ?real = "''A sturdy steel bottle that keeps drinks cold. Yes.''"
  let ?cut = "''Soon to be announced, watch this space...''"
  have len: "length ?real = 50"
    by simp
  have real: "\<not> isPlaceholder ?real"
    by (simp add: isPlaceholder_def)
  have "?cut = ''Soon to be announced, watch this space'' @ ''...'' @ []"
    by simp
  then have cut: "\<exists>a b. ?cut = a @ ''...'' @ b"
    by blast
  show ?thesis
    using len real cut
      isPlaceholder_policy [of ?real ?real "stub_client (answer ''unused'')" Background
        "''Bottle''" world0]
      isPlaceholder_policy [of ?cut ?real "stub_client (answer ''unused'')" Background
        "''Bottle''" world0]
      isPlaceholder_policy [of "''short''" ?real "stub_client (answer ''unused'')" Background
        "''Bottle''" world0]
    by simp
qed

subsection \<open>The cache\<close>

lemma ttl_hint: "Sprintf_d (int_Seconds cacheTTL) = ''86400''"
  by (simp add: Sprintf_d_def int_Seconds_def cacheTTL_def Hour_def Second_def Nanosecond_def digit_def)

lemma ttl_hint_ns: "Sprintf_d (int_Seconds 86400000000000) = ''86400''"
  by (simp add: Sprintf_d_def int_Seconds_def Second_def Nanosecond_def digit_def)

lemma cacheTTL_ns: "cacheTTL = 86400000000000"
  by (simp add: cacheTTL_def Hour_def Second_def Nanosecond_def)

text \<open>
  C3. \<^verbatim>\<open>Cache.Get\<close> looks in the in-process tier first: an entry that is present and
  unexpired is returned, and the state after the call differs from the state before only
  by the clock reading, so the durable tier is not consulted. When the entry is absent or
  expired, a cache without a durable tier reports not-found (empty string, nil error);
  a cache with one calls \<^verbatim>\<open>GetState\<close> once and returns an error as a non-nil error
  (which not-found never has) and a stored value as found. In every case the cache
  returned is the cache given: nothing is back-filled into the in-process tier.
\<close>

theorem Cache_Get_tiers:
  "(memCache c (cache_key productID) = Some entry \<and> clock w (ticks w) < expiresAt entry \<longrightarrow>
      Cache_Get c ctx productID w = ((entry_value entry, None), c, w\<lparr>ticks := Suc (ticks w)\<rparr>)) \<and>
   ((memCache c (cache_key productID) = None \<and> w1 = w) \<or>
    (memCache c (cache_key productID) = Some entry \<and> expiresAt entry \<le> clock w (ticks w) \<and>
       w1 = w\<lparr>ticks := Suc (ticks w)\<rparr>) \<longrightarrow>
      (daprClient c = None \<longrightarrow> Cache_Get c ctx productID w = (('''', None), c, w1)) \<and>
      (daprClient c = Some d \<and>
       GetState d ctx stateStoreName (cache_key productID) (ext w1) = (r, e') \<and>
       w2 = w1\<lparr>ext := e', dapr_calls := dapr_calls w1 @
              [GetStateCall ctx stateStoreName (cache_key productID)]\<rparr> \<longrightarrow>
         (\<forall>err. r = Inl err \<longrightarrow> Cache_Get c ctx productID w = (('''', Some err), c, w2)) \<and>
         (\<forall>it. r = Inr it \<longrightarrow> Cache_Get c ctx productID w = ((Value it, None), c, w2))))"
  by (auto simp: Cache_Get_def time_Now_def Let_def)

theorem Cache_Get_tiers_witness:
  "Cache_Get widget_cache Background ''p1'' world0 =
     ((''A great widget.'', None), widget_cache, world0\<lparr>ticks := 1\<rparr>) \<and>
   Cache_Get widget_cache Background ''p1'' (world0\<lparr>ticks := 7\<rparr>) =
     (('''', Some (Errorf ''sidecar down'')), widget_cache,
      world0\<lparr>ticks := 8, dapr_calls := [GetStateCall Background ''statestore'' ''ai-desc-p1'']\<rparr>) \<and>
   Cache_Get NewMemoryCache Background ''p1'' world0 = (('''', None), NewMemoryCache, world0) \<and>
   Cache_Get (NewCache (stub_dapr (Inr \<lparr>Key = ''ai-desc-p1'', Value = ''Stored text''\<rparr>) None))
       Background ''p1'' world0 =
     ((''Stored text'', None),
      NewCache (stub_dapr (Inr \<lparr>Key = ''ai-desc-p1'', Value = ''Stored text''\<rparr>) None),
      world0\<lparr>dapr_calls := [GetStateCall Background ''statestore'' ''ai-desc-p1'']\<rparr>)"
  using
    Cache_Get_tiers [where c = widget_cache and productID = "''p1''" and ctx = Background
      and entry = "\<lparr>entry_value = ''A great widget.'', expiresAt = 5 * Second\<rparr>"
      and w = world0]
    Cache_Get_tiers [where c = widget_cache and productID = "''p1''" and ctx = Background
      and entry = "\<lparr>entry_value = ''A great widget.'', expiresAt = 5 * Second\<rparr>"
      and w = "world0\<lparr>ticks := 7\<rparr>" and ?w1.0 = "world0\<lparr>ticks := 8\<rparr>"
      and d = "stub_dapr (Inl (Errorf ''sidecar down'')) (Some (Errorf ''write refused''))"
      and r = "Inl (Errorf ''sidecar down'')" and e' = "()"
      and ?w2.0 = "world0\<lparr>ticks := 8,
        dapr_calls := [GetStateCall Background ''statestore'' ''ai-desc-p1'']\<rparr>"]
    Cache_Get_tiers [where c = NewMemoryCache and productID = "''p1''" and ctx = Background
      and w = world0 and ?w1.0 = world0]
    Cache_Get_tiers [where
      c = "NewCache (stub_dapr (Inr \<lparr>Key = ''ai-desc-p1'', Value = ''Stored text''\<rparr>) None)"
      and productID = "''p1''" and ctx = Background and w = world0 and ?w1.0 = world0
      and d = "stub_dapr (Inr \<lparr>Key = ''ai-desc-p1'', Value = ''Stored text''\<rparr>) None"
      and r = "Inr \<lparr>Key = ''ai-desc-p1'', Value = ''Stored text''\<rparr>" and e' = "()"
      and ?w2.0 = "world0\<lparr>dapr_calls := [GetStateCall Background ''statestore'' ''ai-desc-p1'']\<rparr>"]
  by (simp add: widget_cache_def world0_def NewMemoryCache_def NewCache_def stub_dapr_def
      cache_key_def stateStoreName_def Second_def Nanosecond_def)

text \<open>
  C4. \<^verbatim>\<open>Cache.Set\<close> stores the value in the in-process tier under the product's key with
  expiry \<^verbatim>\<open>now + 24h\<close> (86400000000000 ns after the clock reading), whatever entry was
  there before. Without a durable tier it returns nil. With one it calls \<^verbatim>\<open>SaveState\<close>
  once with the same key and value and the metadata \<^verbatim>\<open>ttlInSeconds = 86400\<close> (24 hours),
  and returns what \<^verbatim>\<open>SaveState\<close> returned; the in-process entry is there whether or not
  that is an error.
\<close>

theorem Cache_Set_writes:
  "Cache_Set c ctx productID v w = (err, c', w') \<Longrightarrow>
     memCache c' = (memCache c)(cache_key productID \<mapsto>
        \<lparr>entry_value = v, expiresAt = clock w (ticks w) + 86400000000000\<rparr>) \<and>
     daprClient c' = daprClient c \<and>
     (daprClient c = None \<longrightarrow> err = None \<and> w' = w\<lparr>ticks := Suc (ticks w)\<rparr>) \<and>
     (\<forall>d. daprClient c = Some d \<longrightarrow>
        (err, ext w') = SaveState d ctx stateStoreName (cache_key productID) v
                 [(''ttlInSeconds'', ''86400'')] (ext w) \<and>
        dapr_calls w' = dapr_calls w @
          [SaveStateCall ctx stateStoreName (cache_key productID) v [(''ttlInSeconds'', ''86400'')]]) \<and>
     86400 * Second = cacheTTL \<and> cacheTTL = 24 * Hour"
  by (auto simp: Cache_Set_def time_Now_def Let_def ttl_hint_ns cacheTTL_ns Hour_def Second_def
      Nanosecond_def split: option.splits prod.splits)

theorem Cache_Set_writes_witness:
  "fst (Cache_Set widget_cache Background ''p1'' ''Brand new text'' world0) =
     Some (Errorf ''write refused'') \<and>
   memCache (fst (snd (Cache_Set widget_cache Background ''p1'' ''Brand new text'' world0)))
       ''ai-desc-p1'' =
     Some \<lparr>entry_value = ''Brand new text'', expiresAt = 86400000000000\<rparr> \<and>
   dapr_calls (snd (snd (Cache_Set widget_cache Background ''p1'' ''Brand new text'' world0))) =
     [SaveStateCall Background ''statestore'' ''ai-desc-p1'' ''Brand new text''
        [(''ttlInSeconds'', ''86400'')]] \<and>
   fst (Cache_Set NewMemoryCache Background ''p1'' ''Brand new text'' world0) = None"
proof -
  let ?r = "Cache_Set widget_cache Background ''p1'' ''Brand new text'' world0"
  let ?m = "Cache_Set NewMemoryCache Background ''p1'' ''Brand new text'' world0"
  have r: "?r = (fst ?r, fst (snd ?r), snd (snd ?r))" by simp
  have m: "?m = (fst ?m, fst (snd ?m), snd (snd ?m))" by simp
  show ?thesis
    using Cache_Set_writes [OF r] Cache_Set_writes [OF m]
    by (simp add: widget_cache_def world0_def NewMemoryCache_def stub_dapr_def cache_key_def
        stateStoreName_def)
qed

lemma Cache_Get_fresh:
  "memCache c (cache_key productID) = Some entry \<Longrightarrow> clock w (ticks w) < expiresAt entry \<Longrightarrow>
   Cache_Get c ctx productID w = ((entry_value entry, None), c, w\<lparr>ticks := Suc (ticks w)\<rparr>)"
  by (simp add: Cache_Get_def time_Now_def)

lemma Cache_Set_entry:
  "Cache_Set c ctx productID v w = (err, c', w') \<Longrightarrow>
   memCache c' (cache_key productID) =
     Some \<lparr>entry_value = v, expiresAt = clock w (ticks w) + 86400000000000\<rparr>"
  by (auto simp: Cache_Set_def time_Now_def Let_def cacheTTL_ns split: option.splits prod.splits)

text \<open>
  C7. An entry written when the clock read \<open>T\<close> is stored with expiry \<open>T + 24h\<close>
  (24 * 3600 * 10^9 ns). A later \<^verbatim>\<open>Get\<close> whose clock reading is strictly before that expiry
  answers from the in-process tier. With a durable tier, \<^verbatim>\<open>Get\<close> leaves the durable tier
  alone exactly when the reading is before the expiry; without one, it returns the value
  before the expiry and not-found from the expiry on, so in particular at \<open>T + 24h + \<epsilon>\<close>
  for every \<open>\<epsilon> > 0\<close>.
\<close>

theorem ttl_expiry:
  "Cache_Set c ctx productID v w = (err, c', w') \<Longrightarrow>
     memCache c' (cache_key productID) =
       Some \<lparr>entry_value = v, expiresAt = clock w (ticks w) + 24 * 3600 * 1000000000\<rparr> \<and>
     (clock u (ticks u) < clock w (ticks w) + 24 * 3600 * 1000000000 \<longrightarrow>
        Cache_Get c' ctx' productID u = ((v, None), c', u\<lparr>ticks := Suc (ticks u)\<rparr>)) \<and>
     (daprClient c \<noteq> None \<longrightarrow>
        (dapr_calls (snd (snd (Cache_Get c' ctx' productID u))) = dapr_calls u \<longleftrightarrow>
         clock u (ticks u) < clock w (ticks w) + 24 * 3600 * 1000000000)) \<and>
     (daprClient c = None \<longrightarrow>
        fst (Cache_Get c' ctx' productID u) =
          (if clock u (ticks u) < clock w (ticks w) + 24 * 3600 * 1000000000 then (v, None)
           else ('''', None)) \<and>
        (\<forall>\<epsilon>>0. clock u (ticks u) = clock w (ticks w) + 24 * 3600 * 1000000000 + \<epsilon> \<longrightarrow>
           fst (Cache_Get c' ctx' productID u) = ('''', None)))"
  by (auto simp: Cache_Set_def Cache_Get_def time_Now_def Let_def cacheTTL_ns
      split: option.splits prod.splits sum.splits)

theorem ttl_expiry_witness:
  "memCache (fst (snd (Cache_Set NewMemoryCache Background ''p1'' ''A great widget.'' world0)))
       ''ai-desc-p1'' =
     Some \<lparr>entry_value = ''A great widget.'', expiresAt = 86400000000000\<rparr> \<and>
   fst (Cache_Get (fst (snd (Cache_Set NewMemoryCache Background ''p1'' ''A great widget.'' world0)))
       Background ''p1'' (world0\<lparr>ticks := 86399\<rparr>)) = (''A great widget.'', None) \<and>
   fst (Cache_Get (fst (snd (Cache_Set NewMemoryCache Background ''p1'' ''A great widget.'' world0)))
       Background ''p1'' (world0\<lparr>ticks := 86401\<rparr>)) = ('''', None)"
proof -
  let ?s = "Cache_Set NewMemoryCache Background ''p1'' ''A great widget.'' world0"
  have s: "?s = (fst ?s, fst (snd ?s), snd (snd ?s))" by simp
  show ?thesis
    using ttl_expiry [OF s, where u = "world0\<lparr>ticks := 86399\<rparr>" and ctx' = Background]
      ttl_expiry [OF s, where u = "world0\<lparr>ticks := 86401\<rparr>" and ctx' = Background]
    by (simp add: world0_def NewMemoryCache_def cache_key_def Second_def Nanosecond_def)
qed

subsection \<open>What each step leaves alone\<close>

lemma Cache_Get_frame:
  "Cache_Get c ctx productID w = (r, c', w') \<Longrightarrow>
     c' = c \<and> ai_metrics w' = ai_metrics w \<and> openai_calls w' = openai_calls w \<and>
     cancelled w' = cancelled w \<and> clock w' = clock w"
  by (auto simp: Cache_Get_def time_Now_def Let_def split: option.splits prod.splits sum.splits if_splits)

lemma GenerateDescription_frame:
  "GenerateDescription c ctx productName currentDesc w = (r, w') \<Longrightarrow>
     ai_metrics w' = ai_metrics w \<and> dapr_calls w' = dapr_calls w \<and>
     clock w' = clock w \<and> ticks w' = ticks w"
  by (auto simp: GenerateDescription_def Let_def split: option.splits prod.splits sum.splits if_splits list.splits)

lemma Cache_Set_frame:
  "Cache_Set c ctx productID v w = (err, c', w') \<Longrightarrow>
     ai_metrics w' = ai_metrics w \<and> openai_calls w' = openai_calls w \<and>
     cancelled w' = cancelled w \<and> clock w' = clock w \<and> ticks w' = Suc (ticks w)"
  by (auto simp: Cache_Set_def time_Now_def Let_def split: option.splits prod.splits)

subsection \<open>The generation client\<close>

text \<open>
  C9. For a placeholder description, \<^verbatim>\<open>GenerateDescription\<close> makes exactly one call to the
  service: under the context \<^verbatim>\<open>WithTimeout(ctx, 5s)\<close>, with the system message and the
  prompt for the product name, \<^verbatim>\<open>MaxTokens = 200\<close> and \<^verbatim>\<open>Temperature = float32(0.7)\<close>. The
  cancel function of that context is called once before returning, on every path. The
  error returned is non-nil exactly when the call failed, or the response has no choices, or
  its first choice (the one the code reads) has a nil message or a nil message content;
  otherwise the content of the first choice is returned.
\<close>

theorem GenerateDescription_call:
  assumes ph: "isPlaceholder currentDesc"
    and opts: "opts =
      \<lparr>Messages =
         [ChatRequestSystemMessage
            ''You are a creative product description writer. Write engaging, concise descriptions.'',
          ChatRequestUserMessage
            (''Write a compelling 2-3 sentence product description for: '' @ productName)],
       DeploymentName = Some (deployment c), MaxTokens = Some 200,
       Temperature = Some (Float32 7 1)\<rparr>"
    and call: "GetChatCompletions (openai c) (WithTimeout ctx (5 * 1000000000)) opts (ext w) = (resp, e')"
    and run: "GenerateDescription c ctx productName currentDesc w = ((res, err), w')"
  shows "openai_calls w' = openai_calls w @ [(WithTimeout ctx (5 * 1000000000), opts)] \<and>
     cancelled w' = cancelled w @ [WithTimeout ctx (5 * 1000000000)] \<and>
     ext w' = e' \<and>
     (err \<noteq> None \<longleftrightarrow>
        (\<exists>e. resp = Inl e) \<or>
        (\<exists>r. resp = Inr r \<and>
           (Choices r = [] \<or>
            (\<exists>ch rest. Choices r = ch # rest \<and>
               (Message ch = None \<or> (\<exists>m. Message ch = Some m \<and> Content m = None)))))) \<and>
     (\<forall>r ch rest m s. resp = Inr r \<and> Choices r = ch # rest \<and> Message ch = Some m \<and>
        Content m = Some s \<longrightarrow> res = s \<and> err = None)"
  using run ph call unfolding opts
  by (auto simp: GenerateDescription_def Let_def generationTimeout_def Second_def Nanosecond_def
      split: sum.splits list.splits option.splits)

theorem GenerateDescription_call_witness:
  "isPlaceholder ''short'' \<and>
   fst (GenerateDescription (stub_client (answer ''Fresh text'')) Background ''Widget'' ''short''
       world0) = (''Fresh text'', None) \<and>
   cancelled (snd (GenerateDescription (stub_client (answer ''Fresh text'')) Background ''Widget''
       ''short'' world0)) = [WithTimeout Background 5000000000] \<and>
   map fst (openai_calls (snd (GenerateDescription (stub_client (answer ''Fresh text'')) Background
       ''Widget'' ''short'' world0))) = [WithTimeout Background 5000000000] \<and>
   snd (fst (GenerateDescription (stub_client (Inr \<lparr>Choices = []\<rparr>)) Background ''Widget''
       ''short'' world0)) \<noteq> None"
proof -
  let ?opts = "\<lparr>Messages =
         [ChatRequestSystemMessage
            ''You are a creative product description writer. Write engaging, concise descriptions.'',
          ChatRequestUserMessage
            (''Write a compelling 2-3 sentence product description for: '' @ ''Widget'')],
       DeploymentName = Some (deployment (stub_client (answer ''Fresh text''))),
       MaxTokens = Some 200, Temperature = Some (Float32 7 1)\<rparr>"
  let ?opts' = "\<lparr>Messages =
         [ChatRequestSystemMessage
            ''You are a creative product description writer. Write engaging, concise descriptions.'',
          ChatRequestUserMessage
            (''Write a compelling 2-3 sentence product description for: '' @ ''Widget'')],
       DeploymentName = Some (deployment (stub_client (Inr \<lparr>Choices = []\<rparr>))),
       MaxTokens = Some 200, Temperature = Some (Float32 7 1)\<rparr>"
  let ?g = "GenerateDescription (stub_client (answer ''Fresh text'')) Background ''Widget''
       ''short'' world0"
  let ?h = "GenerateDescription (stub_client (Inr \<lparr>Choices = []\<rparr>)) Background ''Widget''
       ''short'' world0"
  have ph: "isPlaceholder ''short''"
    by (simp add: isPlaceholder_def)
  have call: "GetChatCompletions (openai (stub_client (answer ''Fresh text'')))
      (WithTimeout Background (5 * 1000000000)) ?opts (ext world0) = (answer ''Fresh text'', ())"
    by (simp add: stub_client_def stub_openai_def)
  have call': "GetChatCompletions (openai (stub_client (Inr \<lparr>Choices = []\<rparr>)))
      (WithTimeout Background (5 * 1000000000)) ?opts' (ext world0) = (Inr \<lparr>Choices = []\<rparr>, ())"
    by (simp add: stub_client_def stub_openai_def)
  have g: "?g = ((fst (fst ?g), snd (fst ?g)), snd ?g)" by simp
  have h: "?h = ((fst (fst ?h), snd (fst ?h)), snd ?h)" by simp
  show ?thesis
    using ph GenerateDescription_call [OF ph refl call g]
      GenerateDescription_call [OF ph refl call' h]
    by (simp add: answer_def world0_def prod_eq_iff)
qed

subsection \<open>The orchestrator, path by path\<close>

text \<open>
  A call of \<^verbatim>\<open>enhanceDescription\<close> in state \<open>w\<close> first reads the clock, so its cache lookup
  runs in \<open>snd (time_Now w)\<close>. The statements below name the outcome of that lookup
  (\<open>(cached, rerr)\<close>, leaving state \<open>w1\<close>), of \<^verbatim>\<open>GenerateDescription\<close> after it
  (\<open>(d, gerr)\<close>, leaving \<open>w2\<close>) and of \<^verbatim>\<open>Cache.Set\<close> after that (\<open>serr\<close>, leaving \<open>w3\<close>),
  and relate the result \<open>res\<close> and the final state \<open>w'\<close> of the whole call to the state
  \<open>w\<close> it started in.
\<close>

lemma enhanceDescription_hit:
  "Cache_Get (aiCache api) ctx productID (snd (time_Now w)) = ((cached, None), c1, w1) \<Longrightarrow>
   cached \<noteq> [] \<Longrightarrow>
   enhanceDescription api ctx productID productName currentDesc w = (cached, c1, RecordCacheHit w1)"
  by (simp add: enhanceDescription_def Let_def split_beta)

lemma enhanceDescription_miss_fail:
  "Cache_Get (aiCache api) ctx productID (snd (time_Now w)) = ((cached, rerr), c1, w1) \<Longrightarrow>
   \<not> (rerr = None \<and> cached \<noteq> []) \<Longrightarrow>
   GenerateDescription (aiClient api) ctx productName currentDesc w1 = ((d, Some e), w2) \<Longrightarrow>
   enhanceDescription api ctx productID productName currentDesc w =
     (currentDesc, c1, RecordRequest ''error'' (RecordError ''generation_failed'' w2))"
  by (auto simp: enhanceDescription_def Let_def split_beta)

lemma enhanceDescription_miss_ok:
  "Cache_Get (aiCache api) ctx productID (snd (time_Now w)) = ((cached, rerr), c1, w1) \<Longrightarrow>
   \<not> (rerr = None \<and> cached \<noteq> []) \<Longrightarrow>
   GenerateDescription (aiClient api) ctx productName currentDesc w1 = ((d, None), w2) \<Longrightarrow>
   Cache_Set c1 ctx productID d w2 = (serr, c3, w3) \<Longrightarrow>
   enhanceDescription api ctx productID productName currentDesc w =
     (d, c3,
      RecordLatency (Seconds (clock w3 (ticks w3) - clock w (ticks w)))
        ((RecordRequest ''success''
           (if serr \<noteq> None then RecordError ''cache_failed'' w3 else w3))
         \<lparr>ticks := Suc (ticks w3)\<rparr>))"
  by (auto simp: enhanceDescription_def Let_def split_beta time_Since_def time_Now_def
      RecordRequest_def RecordError_def)

lemma time_Now_frame:
  "ai_metrics (snd (time_Now w)) = ai_metrics w \<and> openai_calls (snd (time_Now w)) = openai_calls w \<and>
   cancelled (snd (time_Now w)) = cancelled w \<and> clock (snd (time_Now w)) = clock w \<and>
   dapr_calls (snd (time_Now w)) = dapr_calls w \<and> ticks (snd (time_Now w)) = Suc (ticks w) \<and>
   fst (time_Now w) = clock w (ticks w)"
  by (simp add: time_Now_def)

lemma isPlaceholder_iff:
  "isPlaceholder s \<longleftrightarrow> length s < 20 \<or> (\<exists>a b. s = a @ ''...'' @ b)"
  by (simp add: isPlaceholder_def Contains_iff)

text \<open>
  C6. When the cache lookup returns a non-empty value and a nil error, the orchestrator
  returns that value, the only metric that changes is the cache-hit counter, which goes up
  by one, and the service is not called (the list of observed calls is unchanged). Hence,
  once \<^verbatim>\<open>Cache.Set\<close> has stored a non-empty value for a product ID, an orchestration call
  for that ID whose lookup happens before the entry expires returns the stored value
  without calling the service.
\<close>

theorem cache_hit_short_circuit:
  "(Cache_Get (aiCache api) ctx productID (snd (time_Now w)) = ((cached, None), c1, w1) \<and>
    cached \<noteq> '''' \<and>
    enhanceDescription api ctx productID productName currentDesc w = (res, c', w') \<longrightarrow>
      res = cached \<and>
      ai_metrics w' = (ai_metrics w)\<lparr>aiCacheHitsTotal := aiCacheHitsTotal (ai_metrics w) + 1\<rparr> \<and>
      openai_calls w' = openai_calls w \<and> cancelled w' = cancelled w) \<and>
   (Cache_Set c0 ctx0 productID v w0 = (serr, aiCache api, w0') \<and> v \<noteq> '''' \<and>
    clock w (Suc (ticks w)) < clock w0 (ticks w0) + 86400000000000 \<and>
    enhanceDescription api ctx productID productName currentDesc w = (res, c', w') \<longrightarrow>
      res = v \<and>
      ai_metrics w' = (ai_metrics w)\<lparr>aiCacheHitsTotal := aiCacheHitsTotal (ai_metrics w) + 1\<rparr> \<and>
      openai_calls w' = openai_calls w \<and> cancelled w' = cancelled w)"
proof -
  have hit: "res = cached \<and>
      ai_metrics w' = (ai_metrics w)\<lparr>aiCacheHitsTotal := aiCacheHitsTotal (ai_metrics w) + 1\<rparr> \<and>
      openai_calls w' = openai_calls w \<and> cancelled w' = cancelled w"
    if get: "Cache_Get (aiCache api) ctx productID (snd (time_Now w)) = ((cached, None), c1, w1)"
      and ne: "cached \<noteq> ''''"
      and run: "enhanceDescription api ctx productID productName currentDesc w = (res, c', w')"
    for cached c1 w1
  proof -
    have fr: "ai_metrics w1 = ai_metrics w \<and> openai_calls w1 = openai_calls w \<and>
        cancelled w1 = cancelled w"
      using Cache_Get_frame [OF get] time_Now_frame [of w] by simp
    from enhanceDescription_hit [OF get ne, of productName currentDesc] run
    have "res = cached" and "w' = RecordCacheHit w1" by simp_all
    then show ?thesis using fr by (simp add: RecordCacheHit_def)
  qed
  have again: "res = v \<and>
      ai_metrics w' = (ai_metrics w)\<lparr>aiCacheHitsTotal := aiCacheHitsTotal (ai_metrics w) + 1\<rparr> \<and>
      openai_calls w' = openai_calls w \<and> cancelled w' = cancelled w"
    if set: "Cache_Set c0 ctx0 productID v w0 = (serr, aiCache api, w0')"
      and ne: "v \<noteq> ''''"
      and before: "clock w (Suc (ticks w)) < clock w0 (ticks w0) + 86400000000000"
      and run: "enhanceDescription api ctx productID productName currentDesc w = (res, c', w')"
  proof -
    let ?u = "snd (time_Now w)"
    let ?e = "\<lparr>entry_value = v, expiresAt = clock w0 (ticks w0) + 86400000000000\<rparr>"
    have entry: "memCache (aiCache api) (cache_key productID) = Some ?e"
      by (rule Cache_Set_entry [OF set])
    have "clock ?u (ticks ?u) < expiresAt ?e"
      using before by (simp add: time_Now_def)
    from Cache_Get_fresh [OF entry this, of ctx]
    have "Cache_Get (aiCache api) ctx productID ?u =
        ((v, None), aiCache api, ?u\<lparr>ticks := Suc (ticks ?u)\<rparr>)"
      by simp
    from hit [OF this ne run] show ?thesis .
  qed
  from hit again show ?thesis by blast
qed

theorem cache_hit_short_circuit_witness:
  "fst (enhanceDescription \<lparr>aiClient = stub_client (answer ''unused''), aiCache = widget_cache\<rparr>
       Background ''p1'' ''Widget'' ''short'' world0) = ''A great widget.'' \<and>
   openai_calls (snd (snd (enhanceDescription
       \<lparr>aiClient = stub_client (answer ''unused''), aiCache = widget_cache\<rparr>
       Background ''p1'' ''Widget'' ''short'' world0))) = [] \<and>
   aiCacheHitsTotal (ai_metrics (snd (snd (enhanceDescription
       \<lparr>aiClient = stub_client (answer ''unused''), aiCache = widget_cache\<rparr>
       Background ''p1'' ''Widget'' ''short'' world0)))) = 1 \<and>
   fst (enhanceDescription
       \<lparr>aiClient = stub_client (answer ''unused''),
        aiCache = fst (snd (Cache_Set NewMemoryCache Background ''p1'' ''Generated text'' world0))\<rparr>
       Background ''p1'' ''Widget'' ''short''
       (snd (snd (Cache_Set NewMemoryCache Background ''p1'' ''Generated text'' world0)))) =
     ''Generated text'' \<and>
   openai_calls (snd (snd (enhanceDescription
       \<lparr>aiClient = stub_client (answer ''unused''),
        aiCache = fst (snd (Cache_Set NewMemoryCache Background ''p1'' ''Generated text'' world0))\<rparr>
       Background ''p1'' ''Widget'' ''short''
       (snd (snd (Cache_Set NewMemoryCache Background ''p1'' ''Generated text'' world0)))))) = []"
proof -
  let ?api = "\<lparr>aiClient = stub_client (answer ''unused''), aiCache = widget_cache\<rparr>"
  let ?r = "enhanceDescription ?api Background ''p1'' ''Widget'' ''short'' world0"
  let ?s = "Cache_Set NewMemoryCache Background ''p1'' ''Generated text'' world0"
  let ?api2 = "\<lparr>aiClient = stub_client (answer ''unused''), aiCache = fst (snd ?s)\<rparr>"
  let ?r2 = "enhanceDescription ?api2 Background ''p1'' ''Widget'' ''short'' (snd (snd ?s))"
  have get: "Cache_Get (aiCache ?api) Background ''p1'' (snd (time_Now world0)) =
      ((''A great widget.'', None), widget_cache, (snd (time_Now world0))\<lparr>ticks := 2\<rparr>)"
    by (simp add: Cache_Get_def widget_cache_def cache_key_def time_Now_def world0_def
        Second_def Nanosecond_def)
  have r: "?r = (fst ?r, fst (snd ?r), snd (snd ?r))" by simp
  have s: "?s = (fst ?s, aiCache ?api2, snd (snd ?s))" by simp
  have w: "snd (snd ?s) = world0\<lparr>ticks := 1\<rparr>"
    by (simp add: Cache_Set_def NewMemoryCache_def time_Now_def world0_def)
  have r2: "?r2 = (fst ?r2, fst (snd ?r2), snd (snd ?r2))" by simp
  show ?thesis
    using
      cache_hit_short_circuit [where api = ?api and ctx = Background and productID = "''p1''"
        and w = world0 and cached = "''A great widget.''" and ?c1.0 = widget_cache
        and ?w1.0 = "(snd (time_Now world0))\<lparr>ticks := 2\<rparr>" and productName = "''Widget''"
        and currentDesc = "''short''" and res = "fst ?r" and c' = "fst (snd ?r)"
        and w' = "snd (snd ?r)", THEN conjunct1] get r
      cache_hit_short_circuit [where api = ?api2 and ctx = Background and productID = "''p1''"
        and w = "snd (snd ?s)" and ?c0.0 = NewMemoryCache and ?ctx0.0 = Background
        and v = "''Generated text''" and ?w0.0 = world0 and serr = "fst ?s"
        and w0' = "snd (snd ?s)" and productName = "''Widget''"
        and currentDesc = "''short''" and res = "fst ?r2" and c' = "fst (snd ?r2)"
        and w' = "snd (snd ?r2)", THEN conjunct2] s r2 w
    by (simp add: world0_def metrics0_def Second_def Nanosecond_def)
qed

text \<open>
  C2. When the cache lookup does not hit (an error, or an empty value) and
  \<^verbatim>\<open>GenerateDescription\<close> returns an error, the orchestrator returns the current
  description it was given; the \<^verbatim>\<open>generation_failed\<close> error counter and the \<^verbatim>\<open>error\<close>
  request counter each go up by one and no other counter changes: no latency sample, no
  \<^verbatim>\<open>success\<close> outcome, no cache hit.
\<close>

theorem generation_failure_fallback:
  assumes get: "Cache_Get (aiCache api) ctx productID (snd (time_Now w)) = ((cached, rerr), c1, w1)"
    and miss: "\<not> (rerr = None \<and> cached \<noteq> '''')"
    and gen: "GenerateDescription (aiClient api) ctx productName currentDesc w1 = ((d, Some e), w2)"
    and run: "enhanceDescription api ctx productID productName currentDesc w = (res, c', w')"
  shows "res = currentDesc \<and>
     aiErrorsTotal (ai_metrics w') =
       (aiErrorsTotal (ai_metrics w))(''generation_failed'' :=
          aiErrorsTotal (ai_metrics w) ''generation_failed'' + 1) \<and>
     aiRequestsTotal (ai_metrics w') =
       (aiRequestsTotal (ai_metrics w))(''error'' := aiRequestsTotal (ai_metrics w) ''error'' + 1) \<and>
     aiRequestsTotal (ai_metrics w') ''success'' = aiRequestsTotal (ai_metrics w) ''success'' \<and>
     aiLatencySeconds (ai_metrics w') = aiLatencySeconds (ai_metrics w) \<and>
     aiCacheHitsTotal (ai_metrics w') = aiCacheHitsTotal (ai_metrics w)"
proof -
  have m1: "ai_metrics w1 = ai_metrics w"
    using Cache_Get_frame [OF get] time_Now_frame [of w] by simp
  have m2: "ai_metrics w2 = ai_metrics w"
    using GenerateDescription_frame [OF gen] m1 by simp
  have "enhanceDescription api ctx productID productName currentDesc w =
      (currentDesc, c1, RecordRequest ''error'' (RecordError ''generation_failed'' w2))"
    by (rule enhanceDescription_miss_fail [OF get miss gen])
  with run have res: "res = currentDesc"
    and w': "w' = RecordRequest ''error'' (RecordError ''generation_failed'' w2)"
    by simp_all
  show ?thesis
    unfolding res w' by (simp add: RecordRequest_def RecordError_def m2)
qed

theorem generation_failure_fallback_witness:
  "fst (enhanceDescription (memory_api (Inl (Errorf ''timeout''))) Background ''p1'' ''Widget''
       ''short'' world0) = ''short'' \<and>
   aiErrorsTotal (ai_metrics (snd (snd (enhanceDescription (memory_api (Inl (Errorf ''timeout'')))
       Background ''p1'' ''Widget'' ''short'' world0)))) ''generation_failed'' = 1 \<and>
   aiRequestsTotal (ai_metrics (snd (snd (enhanceDescription (memory_api (Inl (Errorf ''timeout'')))
       Background ''p1'' ''Widget'' ''short'' world0)))) ''error'' = 1 \<and>
   aiRequestsTotal (ai_metrics (snd (snd (enhanceDescription (memory_api (Inl (Errorf ''timeout'')))
       Background ''p1'' ''Widget'' ''short'' world0)))) ''success'' = 0 \<and>
   aiLatencySeconds (ai_metrics (snd (snd (enhanceDescription (memory_api (Inl (Errorf ''timeout'')))
       Background ''p1'' ''Widget'' ''short'' world0)))) = []"
proof -
  let ?api = "memory_api (Inl (Errorf ''timeout''))"
  let ?w1 = "snd (time_Now world0)"
  let ?r = "enhanceDescription ?api Background ''p1'' ''Widget'' ''short'' world0"
  have get: "Cache_Get (aiCache ?api) Background ''p1'' ?w1 = (('''', None), NewMemoryCache, ?w1)"
    by (simp add: Cache_Get_def memory_api_def NewMemoryCache_def)
  have miss: "\<not> (None = None \<and> '''' \<noteq> '''')" by simp
  obtain d e w2 where
    gen: "GenerateDescription (aiClient ?api) Background ''Widget'' ''short'' ?w1 = ((d, Some e), w2)"
    by (simp add: GenerateDescription_def isPlaceholder_def memory_api_def stub_client_def
        stub_openai_def Let_def)
  have r: "?r = (fst ?r, fst (snd ?r), snd (snd ?r))" by simp
  show ?thesis
    using generation_failure_fallback [OF get miss gen r]
    by (simp add: world0_def metrics0_def)
qed

text \<open>
  C10. When the cache lookup does not hit and the current description is not a
  placeholder (at least 20 bytes, no \<^verbatim>\<open>...\<close>), the orchestrator returns the current
  description and makes no call to the service, yet stores the description in the cache
  under the product's key (in the in-process tier, and with a \<^verbatim>\<open>SaveState\<close> call when there
  is a durable tier), counts one \<^verbatim>\<open>success\<close> outcome and records one latency sample, the
  time from the first clock reading of the call to the last.
\<close>

theorem real_description_cached:
  assumes get: "Cache_Get (aiCache api) ctx productID (snd (time_Now w)) = ((cached, rerr), c1, w1)"
    and miss: "\<not> (rerr = None \<and> cached \<noteq> '''')"
    and real: "20 \<le> length currentDesc \<and> \<not> (\<exists>a b. currentDesc = a @ ''...'' @ b)"
    and run: "enhanceDescription api ctx productID productName currentDesc w = (res, c', w')"
  shows "res = currentDesc \<and>
     openai_calls w' = openai_calls w \<and>
     memCache c' (cache_key productID) =
       Some \<lparr>entry_value = currentDesc, expiresAt = clock w (ticks w1) + 86400000000000\<rparr> \<and>
     (\<forall>d. daprClient (aiCache api) = Some d \<longrightarrow>
        dapr_calls w' = dapr_calls w1 @
          [SaveStateCall ctx stateStoreName (cache_key productID) currentDesc
             [(''ttlInSeconds'', ''86400'')]]) \<and>
     aiRequestsTotal (ai_metrics w') =
       (aiRequestsTotal (ai_metrics w))(''success'' := aiRequestsTotal (ai_metrics w) ''success'' + 1) \<and>
     aiLatencySeconds (ai_metrics w') =
       aiLatencySeconds (ai_metrics w) @ [Seconds (clock w (Suc (ticks w1)) - clock w (ticks w))] \<and>
     aiCacheHitsTotal (ai_metrics w') = aiCacheHitsTotal (ai_metrics w)"
proof -
  have np: "\<not> isPlaceholder currentDesc"
    using real by (simp add: isPlaceholder_iff)
  then have gen: "GenerateDescription (aiClient api) ctx productName currentDesc w1 =
      ((currentDesc, None), w1)"
    by (simp add: GenerateDescription_def)
  obtain serr c3 w3 where set: "Cache_Set c1 ctx productID currentDesc w1 = (serr, c3, w3)"
    by (cases "Cache_Set c1 ctx productID currentDesc w1") auto
  have c1: "c1 = aiCache api" and f1: "ai_metrics w1 = ai_metrics w"
    "openai_calls w1 = openai_calls w" "clock w1 = clock w"
    using Cache_Get_frame [OF get] time_Now_frame [of w] by simp_all
  have f3: "ai_metrics w3 = ai_metrics w" "openai_calls w3 = openai_calls w"
    "clock w3 = clock w" "ticks w3 = Suc (ticks w1)"
    using Cache_Set_frame [OF set] f1 by simp_all
  have entry: "memCache c3 (cache_key productID) =
      Some \<lparr>entry_value = currentDesc, expiresAt = clock w (ticks w1) + 86400000000000\<rparr>"
    using Cache_Set_entry [OF set] f1 by simp
  have calls: "dapr_calls w3 = dapr_calls w1 @
      [SaveStateCall ctx stateStoreName (cache_key productID) currentDesc
         [(''ttlInSeconds'', ''86400'')]]"
    if "daprClient (aiCache api) = Some d" for d
    using set that c1
    by (auto simp: Cache_Set_def time_Now_def Let_def ttl_hint split: prod.splits)
  from enhanceDescription_miss_ok [OF get miss gen set] run
  have res: "res = currentDesc" and c': "c' = c3"
    and w': "w' = RecordLatency (Seconds (clock w3 (ticks w3) - clock w (ticks w)))
        ((RecordRequest ''success''
           (if serr \<noteq> None then RecordError ''cache_failed'' w3 else w3))
         \<lparr>ticks := Suc (ticks w3)\<rparr>)"
    by simp_all
  show ?thesis
    unfolding res c' w'
    using entry calls f3
    by (auto simp: RecordLatency_def RecordRequest_def RecordError_def)
qed

theorem real_description_cached_witness:
  "fst (enhanceDescription (memory_api (answer ''unused'')) Background ''p1'' ''Bottle''
       ''A sturdy steel bottle that keeps drinks cold. Yes.'' world0) =
     ''A sturdy steel bottle that keeps drinks cold. Yes.'' \<and>
   openai_calls (snd (snd (enhanceDescription (memory_api (answer ''unused'')) Background ''p1''
       ''Bottle'' ''A sturdy steel bottle that keeps drinks cold. Yes.'' world0))) = [] \<and>
   memCache (fst (snd (enhanceDescription (memory_api (answer ''unused'')) Background ''p1''
       ''Bottle'' ''A sturdy steel bottle that keeps drinks cold. Yes.'' world0))) ''ai-desc-p1'' =
     Some \<lparr>entry_value = ''A sturdy steel bottle that keeps drinks cold. Yes.'',
            expiresAt = 86401000000000\<rparr> \<and>
   aiRequestsTotal (ai_metrics (snd (snd (enhanceDescription (memory_api (answer ''unused''))
       Background ''p1'' ''Bottle'' ''A sturdy steel bottle that keeps drinks cold. Yes.''
       world0)))) ''success'' = 1 \<and>
   aiLatencySeconds (ai_metrics (snd (snd (enhanceDescription (memory_api (answer ''unused''))
       Background ''p1'' ''Bottle'' ''A sturdy steel bottle that keeps drinks cold. Yes.''
       world0)))) = [Seconds 2000000000]"
proof -
  let ?api = "memory_api (answer ''unused'')"
  let ?d = "''A sturdy steel bottle that keeps drinks cold. Yes.''"
  let ?w1 = "snd (time_Now world0)"
  let ?r = "enhanceDescription ?api Background ''p1'' ''Bottle'' ?d world0"
  have get: "Cache_Get (aiCache ?api) Background ''p1'' ?w1 = (('''', None), NewMemoryCache, ?w1)"
    by (simp add: Cache_Get_def memory_api_def NewMemoryCache_def)
  have miss: "\<not> (None = None \<and> '''' \<noteq> '''')" by simp
  have "\<not> isPlaceholder ?d" by (simp add: isPlaceholder_def)
  then have real: "20 \<le> length ?d \<and> \<not> (\<exists>a b. ?d = a @ ''...'' @ b)"
    unfolding isPlaceholder_iff by simp
  have r: "?r = (fst ?r, fst (snd ?r), snd (snd ?r))" by simp
  show ?thesis
    using real_description_cached [OF get miss real r]
    by (simp add: world0_def metrics0_def time_Now_def cache_key_def Second_def Nanosecond_def)
qed

text \<open>
  C8, as amended. When \<^verbatim>\<open>Cache.Get\<close> returns an error, the orchestrator does not count
  a cache hit and goes on to \<^verbatim>\<open>GenerateDescription\<close>, whose outcome decides the result. The
  read error itself is recorded in no collector. The error counters change only by
  \<^verbatim>\<open>generation_failed\<close> when generation fails, or by \<^verbatim>\<open>cache_failed\<close> when the cache write
  fails, and not at all when both succeed; the request counters change only by \<^verbatim>\<open>error\<close>
  when generation fails and by \<^verbatim>\<open>success\<close> when it does not; the latency samples gain
  the one sample of a successful generation and nothing else; the cache-hit counter does
  not move. These are the changes a miss without an error makes.
\<close>

theorem cache_read_error_is_miss:
  assumes get: "Cache_Get (aiCache api) ctx productID (snd (time_Now w)) = ((cached, Some rerr), c1, w1)"
    and gen: "GenerateDescription (aiClient api) ctx productName currentDesc w1 = ((d, gerr), w2)"
    and set: "Cache_Set c1 ctx productID d w2 = (serr, c3, w3)"
    and run: "enhanceDescription api ctx productID productName currentDesc w = (res, c', w')"
  shows "aiCacheHitsTotal (ai_metrics w') = aiCacheHitsTotal (ai_metrics w) \<and>
     openai_calls w' = openai_calls w2 \<and> cancelled w' = cancelled w2 \<and>
     res = (if gerr \<noteq> None then currentDesc else d) \<and>
     aiErrorsTotal (ai_metrics w') =
       (if gerr \<noteq> None then
          (aiErrorsTotal (ai_metrics w))(''generation_failed'' :=
             aiErrorsTotal (ai_metrics w) ''generation_failed'' + 1)
        else if serr \<noteq> None then
          (aiErrorsTotal (ai_metrics w))(''cache_failed'' :=
             aiErrorsTotal (ai_metrics w) ''cache_failed'' + 1)
        else aiErrorsTotal (ai_metrics w)) \<and>
     aiRequestsTotal (ai_metrics w') =
       (if gerr \<noteq> None then
          (aiRequestsTotal (ai_metrics w))(''error'' :=
             aiRequestsTotal (ai_metrics w) ''error'' + 1)
        else
          (aiRequestsTotal (ai_metrics w))(''success'' :=
             aiRequestsTotal (ai_metrics w) ''success'' + 1)) \<and>
     aiLatencySeconds (ai_metrics w') =
       (if gerr \<noteq> None then aiLatencySeconds (ai_metrics w)
        else aiLatencySeconds (ai_metrics w) @
          [Seconds (clock w (ticks w3) - clock w (ticks w))])"
proof -
  have miss: "\<not> (Some rerr = None \<and> cached \<noteq> '''')" by simp
  have m1: "ai_metrics w1 = ai_metrics w" "clock w1 = clock w"
    using Cache_Get_frame [OF get] time_Now_frame [of w] by simp_all
  have m2: "ai_metrics w2 = ai_metrics w" "clock w2 = clock w"
    using GenerateDescription_frame [OF gen] m1 by simp_all
  have m3: "ai_metrics w3 = ai_metrics w" "openai_calls w3 = openai_calls w2"
    "cancelled w3 = cancelled w2" "clock w3 = clock w"
    using Cache_Set_frame [OF set] m2 by simp_all
  show ?thesis
  proof (cases gerr)
    case (Some e)
    with gen have gen': "GenerateDescription (aiClient api) ctx productName currentDesc w1 =
        ((d, Some e), w2)" by simp
    from enhanceDescription_miss_fail [OF get miss gen'] run
    have "res = currentDesc"
      and "w' = RecordRequest ''error'' (RecordError ''generation_failed'' w2)" by simp_all
    then show ?thesis using Some m2
      by (simp add: RecordRequest_def RecordError_def)
  next
    case None
    with gen have gen': "GenerateDescription (aiClient api) ctx productName currentDesc w1 =
        ((d, None), w2)" by simp
    from enhanceDescription_miss_ok [OF get miss gen' set] run
    have "res = d"
      and "w' = RecordLatency (Seconds (clock w3 (ticks w3) - clock w (ticks w)))
        ((RecordRequest ''success''
           (if serr \<noteq> None then RecordError ''cache_failed'' w3 else w3))
         \<lparr>ticks := Suc (ticks w3)\<rparr>)"
      by simp_all
    then show ?thesis using None m3
      by (auto simp: RecordLatency_def RecordRequest_def RecordError_def)
  qed
qed

theorem cache_read_error_is_miss_witness:
  "fst (enhanceDescription (dapr_api (answer ''A shiny new widget.'')
       (Inl (Errorf ''sidecar down'')) (Some (Errorf ''write refused''))) Background ''p1''
       ''Widget'' ''short'' world0) = ''A shiny new widget.'' \<and>
   aiCacheHitsTotal (ai_metrics (snd (snd (enhanceDescription (dapr_api (answer ''A shiny new widget.'')
       (Inl (Errorf ''sidecar down'')) (Some (Errorf ''write refused''))) Background ''p1''
       ''Widget'' ''short'' world0)))) = 0 \<and>
   aiErrorsTotal (ai_metrics (snd (snd (enhanceDescription (dapr_api (answer ''A shiny new widget.'')
       (Inl (Errorf ''sidecar down'')) (Some (Errorf ''write refused''))) Background ''p1''
       ''Widget'' ''short'' world0)))) ''cache_failed'' = 1 \<and>
   aiErrorsTotal (ai_metrics (snd (snd (enhanceDescription (dapr_api (answer ''A shiny new widget.'')
       (Inl (Errorf ''sidecar down'')) (Some (Errorf ''write refused''))) Background ''p1''
       ''Widget'' ''short'' world0)))) ''generation_failed'' = 0 \<and>
   aiRequestsTotal (ai_metrics (snd (snd (enhanceDescription (dapr_api (answer ''A shiny new widget.'')
       (Inl (Errorf ''sidecar down'')) (Some (Errorf ''write refused''))) Background ''p1''
       ''Widget'' ''short'' world0)))) ''success'' = 1 \<and>
   aiRequestsTotal (ai_metrics (snd (snd (enhanceDescription (dapr_api (answer ''A shiny new widget.'')
       (Inl (Errorf ''sidecar down'')) (Some (Errorf ''write refused''))) Background ''p1''
       ''Widget'' ''short'' world0)))) ''error'' = 0 \<and>
   length (aiLatencySeconds (ai_metrics (snd (snd (enhanceDescription
       (dapr_api (answer ''A shiny new widget.'')
       (Inl (Errorf ''sidecar down'')) (Some (Errorf ''write refused''))) Background ''p1''
       ''Widget'' ''short'' world0))))) = 1"
proof -
  let ?api = "dapr_api (answer ''A shiny new widget.'') (Inl (Errorf ''sidecar down''))
      (Some (Errorf ''write refused''))"
  let ?w0 = "snd (time_Now world0)"
  let ?r = "enhanceDescription ?api Background ''p1'' ''Widget'' ''short'' world0"
  obtain c1 w1 where
    get: "Cache_Get (aiCache ?api) Background ''p1'' ?w0 =
      (('''', Some (Errorf ''sidecar down'')), c1, w1)"
    by (simp add: Cache_Get_def dapr_api_def NewCache_def stub_dapr_def Let_def)
  obtain w2 where
    gen: "GenerateDescription (aiClient ?api) Background ''Widget'' ''short'' w1 =
      ((''A shiny new widget.'', None), w2)"
    by (simp add: GenerateDescription_def isPlaceholder_def dapr_api_def stub_client_def
        stub_openai_def answer_def Let_def)
  have c1: "c1 = aiCache ?api"
    using Cache_Get_frame [OF get] by simp
  obtain c3 w3 where
    set: "Cache_Set c1 Background ''p1'' ''A shiny new widget.'' w2 =
      (Some (Errorf ''write refused''), c3, w3)"
    unfolding c1 by (simp add: Cache_Set_def dapr_api_def NewCache_def stub_dapr_def Let_def
        split_beta)
  have r: "?r = (fst ?r, fst (snd ?r), snd (snd ?r))" by simp
  show ?thesis
    using cache_read_error_is_miss [OF get gen set r]
    by (simp add: world0_def metrics0_def)
qed

text \<open>
  C8 as the specification states it (the read error is recorded as an error metric of some
  kind) fails here: the durable tier answers the lookup with an error, generation and the
  cache write succeed, and after the call every error counter is what it was before.
\<close>

theorem cache_read_error_counterexample:
  "snd (fst (Cache_Get (aiCache (dapr_api (answer ''A shiny new widget.'')
       (Inl (Errorf ''sidecar down'')) None)) Background ''p1'' (snd (time_Now world0)))) =
     Some (Errorf ''sidecar down'') \<and>
   fst (enhanceDescription (dapr_api (answer ''A shiny new widget.'')
       (Inl (Errorf ''sidecar down'')) None) Background ''p1'' ''Widget'' ''short'' world0) =
     ''A shiny new widget.'' \<and>
   aiErrorsTotal (ai_metrics (snd (snd (enhanceDescription (dapr_api (answer ''A shiny new widget.'')
       (Inl (Errorf ''sidecar down'')) None) Background ''p1'' ''Widget'' ''short'' world0)))) =
     aiErrorsTotal (ai_metrics world0)"
  by (simp add: enhanceDescription_def Cache_Get_def Cache_Set_def GenerateDescription_def
      isPlaceholder_def dapr_api_def NewCache_def stub_dapr_def stub_client_def stub_openai_def
      answer_def time_Now_def time_Since_def RecordRequest_def RecordLatency_def world0_def
      Let_def)

text \<open>
  C1. The orchestrator is to return a non-empty string whenever the current description
  it is given is non-empty. The code does not. \<^verbatim>\<open>GenerateDescription\<close> rejects a response
  whose first choice has no content (\<^verbatim>\<open>no description generated\<close>), but a content that is
  present and empty passes that check and is returned with a nil error;
  \<^verbatim>\<open>enhanceDescription\<close> then stores the empty string in the cache and returns it. Here
  the cache is empty, the current description is \<^verbatim>\<open>short\<close> and the service answers with
  the empty text: the result is the empty string, it is what the cache now holds for the
  product, and the outcome is counted as a success. With the content missing instead of
  empty, the same call falls back to \<^verbatim>\<open>short\<close>.
\<close>

theorem enhanceDescription_empty_text:
  "''short'' \<noteq> '''' \<and>
   fst (GenerateDescription (stub_client (answer '''')) Background ''Widget'' ''short''
       (snd (time_Now world0))) = ('''', None) \<and>
   fst (enhanceDescription (memory_api (answer '''')) Background ''p1'' ''Widget'' ''short''
       world0) = '''' \<and>
   memCache (fst (snd (enhanceDescription (memory_api (answer '''')) Background ''p1'' ''Widget''
       ''short'' world0))) ''ai-desc-p1'' =
     Some \<lparr>entry_value = '''', expiresAt = 86401000000000\<rparr> \<and>
   aiRequestsTotal (ai_metrics (snd (snd (enhanceDescription (memory_api (answer ''''))
       Background ''p1'' ''Widget'' ''short'' world0)))) ''success'' = 1 \<and>
   fst (enhanceDescription
       (memory_api (Inr \<lparr>Choices = [\<lparr>Message = Some \<lparr>Content = None\<rparr>\<rparr>]\<rparr>))
       Background ''p1'' ''Widget'' ''short'' world0) = ''short''"
  by (simp add: enhanceDescription_def Cache_Get_def Cache_Set_def GenerateDescription_def
      isPlaceholder_def memory_api_def NewMemoryCache_def stub_client_def stub_openai_def
      answer_def time_Now_def time_Since_def RecordRequest_def RecordError_def RecordLatency_def
      world0_def metrics0_def cache_key_def cacheTTL_ns Second_def Nanosecond_def Let_def)

end
